theory Spec2Isabelle
  imports Main "HOL-Library.Word"
begin

unbundle bit_operations_syntax

section \<open>nsi.h: reserved constants\<close>

text \<open>
  The header \<^verbatim>\<open>nsi.h\<close> declares the C interface of the Nodal Scene Interface.
  C's \<^verbatim>\<open>int\<close> is modelled as \<^typ>\<open>int\<close>: every \<^verbatim>\<open>int\<close> of the header is an
  enumeration constant or a literal below 32, so no arithmetic on it can overflow.
  C's \<^verbatim>\<open>unsigned\<close> is modelled as \<^typ>\<open>32 word\<close>, and the implicit conversion of
  an \<^verbatim>\<open>int\<close> to \<^verbatim>\<open>unsigned\<close> as \<^const>\<open>word_of_int\<close>. A string literal is
  a \<^typ>\<open>string\<close>.
\<close>

text \<open>\<^verbatim>\<open>#define NSI_BAD_CONTEXT ((NSIContext_t)0)\<close>, an \<^verbatim>\<open>int\<close>.\<close>

definition NSI_BAD_CONTEXT :: int where
  "NSI_BAD_CONTEXT = 0"

definition NSI_SCENE_ROOT :: string where
  "NSI_SCENE_ROOT = ''.root''"

definition NSI_SCENE_GLOBAL :: string where
  "NSI_SCENE_GLOBAL = ''.global''"

definition NSI_ALL_NODES :: string where
  "NSI_ALL_NODES = ''.all''"

definition NSI_ALL_ATTRIBUTES :: string where
  "NSI_ALL_ATTRIBUTES = ''.all''"

definition NSI_VERSION :: int where
  "NSI_VERSION = 2"

section \<open>nsi.h: the type tags of \<^verbatim>\<open>NSIParam_t.type\<close>\<close>

text \<open>
  The enumerators of \<^verbatim>\<open>enum NSIType_t\<close>, each with the initialiser the header
  gives it. The two double-precision tags are written with C's \<^verbatim>\<open>|\<close>.
\<close>

definition NSITypeInvalid :: int where
  "NSITypeInvalid = 0"

definition NSITypeFloat :: int where
  "NSITypeFloat = 1"

definition NSITypeDouble :: int where
  "NSITypeDouble = NSITypeFloat OR 0x10"

definition NSITypeInteger :: int where
  "NSITypeInteger = 2"

definition NSITypeString :: int where
  "NSITypeString = 3"

definition NSITypeColor :: int where
  "NSITypeColor = 4"

definition NSITypePoint :: int where
  "NSITypePoint = 5"

definition NSITypeVector :: int where
  "NSITypeVector = 6"

definition NSITypeNormal :: int where
  "NSITypeNormal = 7"

definition NSITypeMatrix :: int where
  "NSITypeMatrix = 8"

definition NSITypeDoubleMatrix :: int where
  "NSITypeDoubleMatrix = NSITypeMatrix OR 0x10"

definition NSITypePointer :: int where
  "NSITypePointer = 9"

text \<open>The enumeration as a whole: its enumerators in the order of the header.\<close>

definition NSIType_t :: "int list" where
  "NSIType_t =
    [NSITypeInvalid, NSITypeFloat, NSITypeDouble, NSITypeInteger, NSITypeString,
     NSITypeColor, NSITypePoint, NSITypeVector, NSITypeNormal, NSITypeMatrix,
     NSITypeDoubleMatrix, NSITypePointer]"

section \<open>nsi.h: \<^verbatim>\<open>NSITypeSizeOf\<close>\<close>

text \<open>
  The table of \<^verbatim>\<open>NSITypeSizeOf\<close> is built from \<^verbatim>\<open>sizeof\<close> expressions, whose
  values the compiler supplies. They are the fields of a \<open>platform\<close>, a parameter of
  the model: the byte widths of \<^verbatim>\<open>float\<close>, \<^verbatim>\<open>int\<close>, \<^verbatim>\<open>double\<close>,
  \<^verbatim>\<open>char*\<close> and \<^verbatim>\<open>void*\<close>.
\<close>

record platform =
  sizeof_float :: nat
  sizeof_int :: nat
  sizeof_double :: nat
  sizeof_char_ptr :: nat
  sizeof_void_ptr :: nat

text \<open>
  The table's element type is \<^verbatim>\<open>unsigned char\<close>: an initialiser of type
  \<^verbatim>\<open>size_t\<close> is converted to it, that is reduced modulo \<open>2 ^ 8\<close>.
\<close>

definition uchar :: "nat \<Rightarrow> nat" where
  "uchar n = n mod 2 ^ 8"

definition sizes :: "platform \<Rightarrow> nat list" where
  "sizes P =
    [0, uchar (sizeof_float P), uchar (sizeof_int P), uchar (sizeof_char_ptr P),
     uchar (3 * sizeof_float P), uchar (3 * sizeof_float P),
     uchar (3 * sizeof_float P), uchar (3 * sizeof_float P),
     uchar (16 * sizeof_float P), uchar (sizeof_void_ptr P), 0, 0,
     0, 0, 0, 0,
     0, uchar (sizeof_double P), 0, 0,
     0, 0, 0, 0,
     uchar (16 * sizeof_double P)]"

text \<open>
  Reading a C array: an index past the end is undefined behaviour, the value \<open>None\<close>
  of the model.
\<close>

definition array_read :: "'a list \<Rightarrow> nat \<Rightarrow> 'a option" where
  "array_read xs i = (if i < length xs then Some (xs ! i) else None)"

text \<open>
  \<^verbatim>\<open>return t <= 24 ? sizes[t] : 0;\<close> The result is a \<^verbatim>\<open>size_t\<close> holding the
  value of an \<^verbatim>\<open>unsigned char\<close>, which fits at every width of \<^verbatim>\<open>size_t\<close>: it is
  a \<^typ>\<open>nat\<close>. \<open>None\<close> stands for a faulting read of the table.
\<close>

definition NSITypeSizeOf :: "platform \<Rightarrow> 32 word \<Rightarrow> nat option" where
  "NSITypeSizeOf P t = (if t \<le> 24 then array_read (sizes P) (unat t) else Some 0)"

text \<open>
  A platform on which every \<^verbatim>\<open>sizeof\<close> initialiser of the table is positive and
  fits an \<^verbatim>\<open>unsigned char\<close> unchanged.
\<close>

definition sizes_fit :: "platform \<Rightarrow> bool" where
  "sizes_fit P \<longleftrightarrow>
     0 < sizeof_float P \<and> 16 * sizeof_float P < 256 \<and>
     0 < sizeof_int P \<and> sizeof_int P < 256 \<and>
     0 < sizeof_double P \<and> 16 * sizeof_double P < 256 \<and>
     0 < sizeof_char_ptr P \<and> sizeof_char_ptr P < 256 \<and>
     0 < sizeof_void_ptr P \<and> sizeof_void_ptr P < 256"

text \<open>
  The two data models the header is compiled under in practice: LP64 (64-bit Unix;
  LLP64 of 64-bit Windows has the same five widths) and ILP32.
\<close>

definition lp64 :: platform where
  "lp64 = \<lparr>sizeof_float = 4, sizeof_int = 4, sizeof_double = 8,
            sizeof_char_ptr = 8, sizeof_void_ptr = 8\<rparr>"

definition ilp32 :: platform where
  "ilp32 = \<lparr>sizeof_float = 4, sizeof_int = 4, sizeof_double = 8,
             sizeof_char_ptr = 4, sizeof_void_ptr = 4\<rparr>"

section \<open>nsi.h: parameter flags and the parameter record\<close>

definition NSIParamIsArray :: int where
  "NSIParamIsArray = 1"

definition NSIParamPerFace :: int where
  "NSIParamPerFace = 2"

definition NSIParamPerVertex :: int where
  "NSIParamPerVertex = 4"

definition NSIParamInterpolateLinear :: int where
  "NSIParamInterpolateLinear = 8"

text \<open>The anonymous enumeration of the flags, in the order of the header.\<close>

definition NSIParam_flags :: "int list" where
  "NSIParam_flags =
    [NSIParamIsArray, NSIParamPerFace, NSIParamPerVertex, NSIParamInterpolateLinear]"

text \<open>
  \<^verbatim>\<open>struct NSIParam_t\<close>. The borrowed buffer \<^verbatim>\<open>data\<close> is opaque to the header:
  its model is a type parameter.
\<close>

record 'd NSIParam_t =
  name :: string
  data :: 'd
  type :: int
  arraylength :: int
  count :: nat
  flags :: int

section \<open>nsi.h: callbacks and their enumerations\<close>

definition NSIRenderCompleted :: int where
  "NSIRenderCompleted = 0"

definition NSIRenderAborted :: int where
  "NSIRenderAborted = 1"

definition NSIRenderSynchronized :: int where
  "NSIRenderSynchronized = 2"

definition NSIRenderRestarted :: int where
  "NSIRenderRestarted = 3"

definition NSIErrMessage :: int where
  "NSIErrMessage = 0"

definition NSIErrInfo :: int where
  "NSIErrInfo = 1"

definition NSIErrWarning :: int where
  "NSIErrWarning = 2"

definition NSIErrError :: int where
  "NSIErrError = 3"

text \<open>
  A function-pointer \<^verbatim>\<open>typedef\<close> is a declaration, not code: it is embedded as
  data, the return type and the parameters (type and name) in the order of the
  declaration.
\<close>

datatype ctype = CVoid | CInt | CChar | CConst ctype | CPtr ctype

record cfunptr =
  returns :: ctype
  params :: "(ctype \<times> string) list"

text \<open>\<^verbatim>\<open>typedef int NSIContext_t;\<close>\<close>

definition NSIContext_t :: ctype where
  "NSIContext_t = CInt"

definition NSIErrorHandler_t :: cfunptr where
  "NSIErrorHandler_t =
    \<lparr>returns = CVoid,
     params = [(CPtr CVoid, ''userdata''), (CInt, ''level''), (CInt, ''code''),
               (CPtr (CConst CChar), ''message'')]\<rparr>"

definition NSIRenderStopped_t :: cfunptr where
  "NSIRenderStopped_t =
    \<lparr>returns = CVoid,
     params = [(CPtr CVoid, ''userdata''), (NSIContext_t, ''ctx''), (CInt, ''status'')]\<rparr>"

section \<open>nsi\_procedural.h: the descriptor of a procedural\<close>

text \<open>
  \<^verbatim>\<open>struct NSIProcedural_t\<close>: an \<^verbatim>\<open>unsigned\<close> version and two function pointers,
  whose targets are opaque to the header (type parameters).
\<close>

record ('u, 'e) NSIProcedural_t =
  nsi_version :: "32 word"
  unload :: 'u
  execute :: 'e

text \<open>
  The macro \<^verbatim>\<open>NSI_PROCEDURAL_INIT(proc, unload_fct, execute_fct)\<close>: three
  assignments to the fields of \<^verbatim>\<open>proc\<close>, in this order.
\<close>

definition NSI_PROCEDURAL_INIT ::
  "('u, 'e) NSIProcedural_t \<Rightarrow> 'u \<Rightarrow> 'e \<Rightarrow> ('u, 'e) NSIProcedural_t" where
  "NSI_PROCEDURAL_INIT proc unload_fct execute_fct =
     proc\<lparr>nsi_version := word_of_int NSI_VERSION,
          unload := unload_fct,
          execute := execute_fct\<rparr>"

section \<open>Auxiliary facts\<close>

lemmas NSIType_defs =
  NSITypeInvalid_def NSITypeFloat_def NSITypeDouble_def NSITypeInteger_def
  NSITypeString_def NSITypeColor_def NSITypePoint_def NSITypeVector_def
  NSITypeNormal_def NSITypeMatrix_def NSITypeDoubleMatrix_def NSITypePointer_def

lemma uchar_id: "n < 256 \<Longrightarrow> uchar n = n"
  by (simp add: uchar_def)

lemma length_sizes: "length (sizes P) = 25"
  by (simp add: sizes_def)

lemma NSITypeSizeOf_above: "24 < t \<Longrightarrow> NSITypeSizeOf P t = Some 0"
  by (simp add: NSITypeSizeOf_def not_le [symmetric])

lemma NSITypeSizeOf_in_table:
  "t \<le> 24 \<Longrightarrow> NSITypeSizeOf P t = Some (sizes P ! unat t)"
  by (simp add: NSITypeSizeOf_def array_read_def length_sizes word_le_nat_alt)

lemma le_24_cases:
  fixes t :: "32 word"
  assumes "t \<le> 24"
  shows "t \<in> {0, 1, 2, 3, 4, 5, 6, 7, 8, 9, 10, 11, 12, 13, 14, 15, 16, 17, 18, 19,
              20, 21, 22, 23, 24}"
proof -
  let ?N = "{0, 1, 2, 3, 4, 5, 6, 7, 8, 9, 10, 11, 12, 13, 14, 15, 16, 17, 18, 19,
             20, 21, 22, 23, 24 :: nat}"
  from assms have "unat t \<le> 24"
    by (simp add: word_le_nat_alt)
  then have "unat t \<in> ?N"
    by (simp only: insert_iff empty_iff) presburger
  then have "of_nat (unat t) \<in> (of_nat ` ?N :: 32 word set)"
    by (rule imageI)
  then show ?thesis
    by simp
qed

lemma recognized_tags:
  "word_of_int ` (set NSIType_t - {NSITypeInvalid}) =
     ({1, 2, 3, 4, 5, 6, 7, 8, 9, 17, 24} :: 32 word set)"
  by (auto simp add: NSIType_t_def NSIType_defs)

lemma sizes_exact:
  assumes "sizes_fit P"
  shows "sizes P =
    [0, sizeof_float P, sizeof_int P, sizeof_char_ptr P,
     3 * sizeof_float P, 3 * sizeof_float P, 3 * sizeof_float P, 3 * sizeof_float P,
     16 * sizeof_float P, sizeof_void_ptr P, 0, 0,
     0, 0, 0, 0,
     0, sizeof_double P, 0, 0,
     0, 0, 0, 0,
     16 * sizeof_double P]"
  using assms by (simp add: sizes_def sizes_fit_def uchar_id)

lemma NSITypeSizeOf_zero_in_table:
  assumes "sizes_fit P" and "t \<le> 24"
  shows "(sizes P ! unat t = 0) = (t \<notin> ({1, 2, 3, 4, 5, 6, 7, 8, 9, 17, 24} :: 32 word set))"
proof -
  from assms(1) have pos: "0 < sizeof_float P" "0 < sizeof_int P" "0 < sizeof_double P"
    "0 < sizeof_char_ptr P" "0 < sizeof_void_ptr P"
    by (simp_all add: sizes_fit_def)
  from le_24_cases [OF assms(2)] show ?thesis
    unfolding sizes_exact [OF assms(1)] using pos
    by (elim insertE emptyE) simp_all
qed

lemmas NSIParam_defs =
  NSIParamIsArray_def NSIParamPerFace_def NSIParamPerVertex_def
  NSIParamInterpolateLinear_def NSIParam_flags_def

lemma flags_closed_form:
  assumes "set fs \<subseteq> set NSIParam_flags"
  shows "foldr (OR) fs 0 =
           (if NSIParamIsArray \<in> set fs then 1 else 0) +
           (if NSIParamPerFace \<in> set fs then 2 else 0) +
           (if NSIParamPerVertex \<in> set fs then 4 else 0) +
           (if NSIParamInterpolateLinear \<in> set fs then 8 else 0)"
  using assms
proof (induction fs)
  case Nil
  then show ?case by simp
next
  case (Cons f fs)
  then have f: "f \<in> {1, 2, 4, 8}" and fs: "set fs \<subseteq> set NSIParam_flags"
    by (simp_all add: NSIParam_defs)
  from f show ?case
    unfolding foldr_Cons comp_apply Cons.IH [OF fs]
    by (elim insertE emptyE) (simp_all add: NSIParam_defs)
qed

lemma flags_test:
  assumes "set fs \<subseteq> set NSIParam_flags" and "g \<in> set NSIParam_flags"
  shows "(foldr (OR) fs 0 AND g \<noteq> 0) = (g \<in> set fs)"
proof -
  from assms(2) have "g \<in> {1, 2, 4, 8}"
    by (simp add: NSIParam_defs)
  then show ?thesis
    unfolding flags_closed_form [OF assms(1)]
    by (elim insertE emptyE) (simp_all add: NSIParam_defs)
qed

lemma flags_range:
  assumes "set fs \<subseteq> set NSIParam_flags"
  shows "0 \<le> foldr (OR) fs 0 \<and> foldr (OR) fs 0 \<le> 15"
  unfolding flags_closed_form [OF assms] by simp

lemma flags_set_eq:
  assumes "set fs \<subseteq> set NSIParam_flags" and "set gs \<subseteq> set NSIParam_flags"
  shows "(foldr (OR) fs 0 = foldr (OR) gs 0) = (set fs = set gs)"
proof
  assume eq: "foldr (OR) fs 0 = foldr (OR) gs 0"
  have "g \<in> set fs \<longleftrightarrow> g \<in> set gs" if "g \<in> set NSIParam_flags" for g
    using flags_test [OF assms(1) that] flags_test [OF assms(2) that] eq by simp
  with assms show "set fs = set gs"
    by blast
next
  assume "set fs = set gs"
  then show "foldr (OR) fs 0 = foldr (OR) gs 0"
    unfolding flags_closed_form [OF assms(1)] flags_closed_form [OF assms(2)] by simp
qed

section \<open>The type tags and the size of a type\<close>

text \<open>
  \<^bold>\<open>Claim C2.\<close> The enumeration \<^verbatim>\<open>NSIType_t\<close> has the numeric values Invalid = 0,
  Float = 1, Integer = 2, String = 3, Color = 4, Point = 5, Vector = 6, Normal = 7,
  Matrix = 8 and Pointer = 9, and each double-precision tag is its base tag with bit
  \<open>0x10\<close> set: Double = 17 and DoubleMatrix = 24.
\<close>

theorem NSIType_t_values:
  "NSITypeInvalid = 0 \<and> NSITypeFloat = 1 \<and> NSITypeInteger = 2 \<and> NSITypeString = 3 \<and>
   NSITypeColor = 4 \<and> NSITypePoint = 5 \<and> NSITypeVector = 6 \<and> NSITypeNormal = 7 \<and>
   NSITypeMatrix = 8 \<and> NSITypePointer = 9 \<and>
   NSITypeDouble = NSITypeFloat OR 0x10 \<and> NSITypeDouble = 17 \<and>
   NSITypeDoubleMatrix = NSITypeMatrix OR 0x10 \<and> NSITypeDoubleMatrix = 24 \<and>
   NSIType_t = [0, 1, 17, 2, 3, 4, 5, 6, 7, 8, 24, 9]"
  by (simp add: NSIType_defs NSIType_t_def)

text \<open>
  \<^bold>\<open>Claim C1.\<close> On a platform where \<^verbatim>\<open>float\<close> and \<^verbatim>\<open>int\<close> are 4 bytes wide,
  \<^verbatim>\<open>double\<close> is 8 bytes wide and a pointer is \<open>w\<close> bytes wide,
  \<^verbatim>\<open>NSITypeSizeOf\<close> returns 4 for Float and Integer, \<open>w\<close> for String and
  Pointer, 12 for Color, Point, Vector and Normal, 64 for Matrix, 128 for DoubleMatrix
  and 8 for Double.
\<close>

theorem NSITypeSizeOf_widths:
  assumes "sizeof_float P = 4" and "sizeof_int P = 4" and "sizeof_double P = 8"
    and "sizeof_char_ptr P = w" and "sizeof_void_ptr P = w" and "w < 256"
  shows "NSITypeSizeOf P (word_of_int NSITypeFloat) = Some 4 \<and>
         NSITypeSizeOf P (word_of_int NSITypeInteger) = Some 4 \<and>
         NSITypeSizeOf P (word_of_int NSITypeString) = Some w \<and>
         NSITypeSizeOf P (word_of_int NSITypeColor) = Some 12 \<and>
         NSITypeSizeOf P (word_of_int NSITypePoint) = Some 12 \<and>
         NSITypeSizeOf P (word_of_int NSITypeVector) = Some 12 \<and>
         NSITypeSizeOf P (word_of_int NSITypeNormal) = Some 12 \<and>
         NSITypeSizeOf P (word_of_int NSITypeMatrix) = Some 64 \<and>
         NSITypeSizeOf P (word_of_int NSITypeDoubleMatrix) = Some 128 \<and>
         NSITypeSizeOf P (word_of_int NSITypeDouble) = Some 8 \<and>
         NSITypeSizeOf P (word_of_int NSITypePointer) = Some w"
  using assms
  by (simp add: NSIType_defs NSITypeSizeOf_in_table sizes_def uchar_id)

theorem NSITypeSizeOf_widths_witness:
  "sizeof_float lp64 = 4 \<and> sizeof_int lp64 = 4 \<and> sizeof_double lp64 = 8 \<and>
   sizeof_char_ptr lp64 = 8 \<and> sizeof_void_ptr lp64 = 8 \<and> (8::nat) < 256 \<and>
   NSITypeSizeOf lp64 (word_of_int NSITypeFloat) = Some 4 \<and>
   NSITypeSizeOf lp64 (word_of_int NSITypeString) = Some 8 \<and>
   NSITypeSizeOf lp64 (word_of_int NSITypeDoubleMatrix) = Some 128 \<and>
   NSITypeSizeOf lp64 (word_of_int NSITypePointer) = Some 8"
  using NSITypeSizeOf_widths [of lp64 8]
  by (simp add: lp64_def)

text \<open>
  \<^bold>\<open>Claim C3.\<close> As stated (the table gives 0 to the invalid tag and to the pointer tag)
  the claim fails: entry 9 of the table is \<^verbatim>\<open>sizeof(void*)\<close>. On LP64 the pointer
  tag has size 8.
\<close>

theorem NSITypeSizeOf_pointer_zero_counterexample:
  "\<not> (NSITypeSizeOf lp64 (word_of_int NSITypeInvalid) = Some 0 \<and>
      NSITypeSizeOf lp64 (word_of_int NSITypePointer) = Some 0)"
  by (simp add: NSIType_defs NSITypeSizeOf_in_table sizes_def uchar_def lp64_def)

text \<open>
  \<^bold>\<open>Claim C3, amended.\<close> \<^verbatim>\<open>NSITypeSizeOf\<close> returns 0 for the invalid tag, and for
  the pointer tag it returns the width of \<^verbatim>\<open>void*\<close>, which is not 0.
\<close>

theorem NSITypeSizeOf_invalid_pointer:
  assumes "0 < sizeof_void_ptr P" and "sizeof_void_ptr P < 256"
  shows "NSITypeSizeOf P (word_of_int NSITypeInvalid) = Some 0 \<and>
         NSITypeSizeOf P (word_of_int NSITypePointer) = Some (sizeof_void_ptr P) \<and>
         NSITypeSizeOf P (word_of_int NSITypePointer) \<noteq> Some 0"
  using assms
  by (simp add: NSIType_defs NSITypeSizeOf_in_table sizes_def uchar_id)

theorem NSITypeSizeOf_invalid_pointer_witness:
  "0 < sizeof_void_ptr ilp32 \<and> sizeof_void_ptr ilp32 < 256 \<and>
   NSITypeSizeOf ilp32 (word_of_int NSITypeInvalid) = Some 0 \<and>
   NSITypeSizeOf ilp32 (word_of_int NSITypePointer) = Some 4"
  using NSITypeSizeOf_invalid_pointer [of ilp32]
  by (simp add: ilp32_def)

text \<open>
  \<^bold>\<open>Claim C8.\<close> \<^verbatim>\<open>NSITypeSizeOf\<close> is total. The table has 25 entries, an argument
  up to 24 indexes it in bounds, and an argument above 24 returns 0 without reading
  the table: no argument makes the read fault.
\<close>

theorem NSITypeSizeOf_total:
  "length (sizes P) = 25 \<and>
   (t \<le> 24 \<longrightarrow> unat t < length (sizes P) \<and> NSITypeSizeOf P t = Some (sizes P ! unat t)) \<and>
   (24 < t \<longrightarrow> NSITypeSizeOf P t = Some 0) \<and>
   (\<exists>n. NSITypeSizeOf P t = Some n)"
proof (cases "t \<le> 24")
  case True
  then have "unat t < length (sizes P)"
    by (simp add: length_sizes word_le_nat_alt)
  with True show ?thesis
    by (simp add: length_sizes NSITypeSizeOf_in_table not_less [symmetric])
next
  case False
  then have "24 < t" by simp
  then show ?thesis
    by (simp add: length_sizes NSITypeSizeOf_above not_le [symmetric])
qed

theorem NSITypeSizeOf_total_witness:
  "length (sizes lp64) = 25 \<and>
   (24 :: 32 word) \<le> 24 \<and> unat (24 :: 32 word) < length (sizes lp64) \<and>
   NSITypeSizeOf lp64 24 = Some 128 \<and>
   (24 :: 32 word) < 25 \<and> NSITypeSizeOf lp64 25 = Some 0 \<and>
   (24 :: 32 word) < 4294967295 \<and> NSITypeSizeOf lp64 4294967295 = Some 0"
  using NSITypeSizeOf_total [of lp64 24] NSITypeSizeOf_total [of lp64 25]
    NSITypeSizeOf_total [of lp64 4294967295]
  by (simp add: sizes_def uchar_def lp64_def)

text \<open>
  \<^bold>\<open>Claim C4.\<close> Where every \<^verbatim>\<open>sizeof\<close> of the table is positive and fits an
  \<^verbatim>\<open>unsigned char\<close>, \<^verbatim>\<open>NSITypeSizeOf t\<close> is 0 exactly when \<open>t\<close> is not an
  enumerator of \<^verbatim>\<open>NSIType_t\<close> other than \<^verbatim>\<open>NSITypeInvalid\<close>: the tags 1 to 9,
  17 and 24 have a positive size, and 0, the gaps 10 to 16 and 18 to 23 and every
  value above 24 have size 0.
\<close>

theorem NSITypeSizeOf_zero_iff:
  assumes "sizes_fit P"
  shows "\<exists>n. NSITypeSizeOf P t = Some n \<and>
           (n = 0) = (t \<notin> word_of_int ` (set NSIType_t - {NSITypeInvalid})) \<and>
           (n = 0) = (t \<notin> ({1, 2, 3, 4, 5, 6, 7, 8, 9, 17, 24} :: 32 word set))"
proof (cases "t \<le> 24")
  case True
  then show ?thesis
    using NSITypeSizeOf_zero_in_table [OF assms True]
    by (simp add: NSITypeSizeOf_in_table recognized_tags)
next
  case False
  then have gt: "24 < t" by simp
  then have "t \<notin> ({1, 2, 3, 4, 5, 6, 7, 8, 9, 17, 24} :: 32 word set)"
    by auto
  with gt show ?thesis
    by (simp add: NSITypeSizeOf_above recognized_tags)
qed

theorem NSITypeSizeOf_zero_iff_witness:
  "sizes_fit lp64 \<and>
   NSITypeSizeOf lp64 17 = Some 8 \<and>
   (17 :: 32 word) \<in> word_of_int ` (set NSIType_t - {NSITypeInvalid}) \<and>
   NSITypeSizeOf lp64 16 = Some 0 \<and>
   (16 :: 32 word) \<notin> word_of_int ` (set NSIType_t - {NSITypeInvalid}) \<and>
   NSITypeSizeOf lp64 0 = Some 0 \<and>
   (0 :: 32 word) \<notin> word_of_int ` (set NSIType_t - {NSITypeInvalid})"
proof -
  have fit: "sizes_fit lp64"
    by (simp add: sizes_fit_def lp64_def)
  have vals: "NSITypeSizeOf lp64 17 = Some 8" "NSITypeSizeOf lp64 16 = Some 0"
    "NSITypeSizeOf lp64 0 = Some 0"
    by (simp_all add: NSITypeSizeOf_in_table sizes_def uchar_def lp64_def)
  from fit vals
    NSITypeSizeOf_zero_iff [OF fit, of 17] NSITypeSizeOf_zero_iff [OF fit, of 16]
    NSITypeSizeOf_zero_iff [OF fit, of 0]
  show ?thesis
    by simp
qed

section \<open>Reserved handles, callbacks and the procedural descriptor\<close>

text \<open>
  \<^bold>\<open>Claim C5.\<close> The reserved handles are the strings \<open>.root\<close> (scene root) and
  \<open>.global\<close> (global settings), and the wildcards for all nodes and for all
  attributes are one and the same string \<open>.all\<close>.
\<close>

theorem reserved_handles:
  "NSI_SCENE_ROOT = ''.root'' \<and> NSI_SCENE_GLOBAL = ''.global'' \<and>
   NSI_ALL_NODES = ''.all'' \<and> NSI_ALL_ATTRIBUTES = ''.all'' \<and>
   NSI_ALL_NODES = NSI_ALL_ATTRIBUTES"
  by (simp add: NSI_SCENE_ROOT_def NSI_SCENE_GLOBAL_def NSI_ALL_NODES_def
      NSI_ALL_ATTRIBUTES_def)

text \<open>
  \<^bold>\<open>Claim C6.\<close> The error callback takes (userdata, level, code, message), with the
  levels Message = 0, Info = 1, Warning = 2 and Error = 3; the stopped callback takes
  (userdata, context, status), with the statuses Completed = 0, Aborted = 1,
  Synchronized = 2 and Restarted = 3. Both return nothing.
\<close>

theorem callback_signatures:
  "returns NSIErrorHandler_t = CVoid \<and>
   map snd (params NSIErrorHandler_t) = [''userdata'', ''level'', ''code'', ''message''] \<and>
   map fst (params NSIErrorHandler_t) = [CPtr CVoid, CInt, CInt, CPtr (CConst CChar)] \<and>
   NSIErrMessage = 0 \<and> NSIErrInfo = 1 \<and> NSIErrWarning = 2 \<and> NSIErrError = 3 \<and>
   returns NSIRenderStopped_t = CVoid \<and>
   map snd (params NSIRenderStopped_t) = [''userdata'', ''ctx'', ''status''] \<and>
   map fst (params NSIRenderStopped_t) = [CPtr CVoid, NSIContext_t, CInt] \<and>
   NSIContext_t = CInt \<and>
   NSIRenderCompleted = 0 \<and> NSIRenderAborted = 1 \<and> NSIRenderSynchronized = 2 \<and>
   NSIRenderRestarted = 3"
  by (simp add: NSIErrorHandler_t_def NSIRenderStopped_t_def NSIContext_t_def
      NSIErrMessage_def NSIErrInfo_def NSIErrWarning_def NSIErrError_def
      NSIRenderCompleted_def NSIRenderAborted_def NSIRenderSynchronized_def
      NSIRenderRestarted_def)

text \<open>
  \<^bold>\<open>Claim C7.\<close> The descriptor \<^verbatim>\<open>NSIProcedural_t\<close> consists of exactly the version
  and the two entry points \<^verbatim>\<open>unload\<close> and \<^verbatim>\<open>execute\<close>, and
  \<^verbatim>\<open>NSI_PROCEDURAL_INIT\<close> sets the version to \<^verbatim>\<open>NSI_VERSION\<close>, which is 2.
\<close>

theorem NSI_PROCEDURAL_INIT_version:
  "NSI_PROCEDURAL_INIT proc unload_fct execute_fct =
     \<lparr>nsi_version = word_of_int NSI_VERSION, unload = unload_fct, execute = execute_fct\<rparr> \<and>
   nsi_version (NSI_PROCEDURAL_INIT proc unload_fct execute_fct) = word_of_int NSI_VERSION \<and>
   unload (NSI_PROCEDURAL_INIT proc unload_fct execute_fct) = unload_fct \<and>
   execute (NSI_PROCEDURAL_INIT proc unload_fct execute_fct) = execute_fct \<and>
   NSI_VERSION = 2 \<and>
   unat (nsi_version (NSI_PROCEDURAL_INIT proc unload_fct execute_fct)) = 2"
  by (cases proc) (simp add: NSI_PROCEDURAL_INIT_def NSI_VERSION_def)

section \<open>The parameter flags\<close>

text \<open>
  \<^bold>\<open>Claim C9.\<close> The four parameter flags are the single bits 1, 2, 4 and 8, pairwise
  disjoint. The bitwise OR of any subset of them, stored in the field
  \<^verbatim>\<open>flags\<close> of an \<^verbatim>\<open>NSIParam_t\<close>, lies between 0 and 15, gives the subset back
  by testing each flag, and is equal for two subsets only when they are the same
  subset.
\<close>

theorem NSIParam_flags_roundtrip:
  assumes "set fs \<subseteq> set NSIParam_flags" and "set gs \<subseteq> set NSIParam_flags"
    and "flags p = foldr (OR) fs 0" and "flags q = foldr (OR) gs 0"
  shows "NSIParam_flags = [1, 2, 4, 8] \<and>
         NSIParam_flags = map (\<lambda>k. push_bit k 1) [0, 1, 2, 3] \<and>
         NSIParamIsArray AND NSIParamPerFace = 0 \<and>
         NSIParamIsArray AND NSIParamPerVertex = 0 \<and>
         NSIParamIsArray AND NSIParamInterpolateLinear = 0 \<and>
         NSIParamPerFace AND NSIParamPerVertex = 0 \<and>
         NSIParamPerFace AND NSIParamInterpolateLinear = 0 \<and>
         NSIParamPerVertex AND NSIParamInterpolateLinear = 0 \<and>
         0 \<le> flags p \<and> flags p \<le> 15 \<and>
         {g \<in> set NSIParam_flags. flags p AND g \<noteq> 0} = set fs \<and>
         (flags p = flags q) = (set fs = set gs)"
proof -
  have vals: "NSIParam_flags = [1, 2, 4, 8]"
    "NSIParam_flags = map (\<lambda>k. push_bit k 1) [0, 1, 2, 3]"
    "NSIParamIsArray AND NSIParamPerFace = 0"
    "NSIParamIsArray AND NSIParamPerVertex = 0"
    "NSIParamIsArray AND NSIParamInterpolateLinear = 0"
    "NSIParamPerFace AND NSIParamPerVertex = 0"
    "NSIParamPerFace AND NSIParamInterpolateLinear = 0"
    "NSIParamPerVertex AND NSIParamInterpolateLinear = 0"
    by (simp_all add: NSIParam_defs)
  have decode: "{g \<in> set NSIParam_flags. flags p AND g \<noteq> 0} = set fs"
    using assms(1) flags_test [OF assms(1)] by (auto simp add: assms(3))
  from vals decode flags_range [OF assms(1)] flags_set_eq [OF assms(1,2)]
  show ?thesis
    by (simp only: assms(3,4) simp_thms)
qed

theorem NSIParam_flags_roundtrip_witness:
  "set [NSIParamIsArray, NSIParamPerVertex] \<subseteq> set NSIParam_flags \<and>
   set [NSIParamPerVertex, NSIParamIsArray, NSIParamPerVertex] \<subseteq> set NSIParam_flags \<and>
   foldr (OR) [NSIParamIsArray, NSIParamPerVertex] 0 = 5 \<and>
   foldr (OR) [NSIParamPerVertex, NSIParamIsArray, NSIParamPerVertex] 0 = 5 \<and>
   {g \<in> set NSIParam_flags. (5 :: int) AND g \<noteq> 0} = {NSIParamIsArray, NSIParamPerVertex}"
proof -
  let ?p = "\<lparr>name = ''P'', data = (), type = NSITypePoint, arraylength = 0, count = 1,
             flags = 5\<rparr>"
  have sub: "set [NSIParamIsArray, NSIParamPerVertex] \<subseteq> set NSIParam_flags"
    "set [NSIParamPerVertex, NSIParamIsArray, NSIParamPerVertex] \<subseteq> set NSIParam_flags"
    by (simp_all add: NSIParam_defs)
  have val: "flags ?p = foldr (OR) [NSIParamIsArray, NSIParamPerVertex] 0"
    "flags ?p = foldr (OR) [NSIParamPerVertex, NSIParamIsArray, NSIParamPerVertex] 0"
    by (simp_all add: NSIParam_defs)
  from NSIParam_flags_roundtrip [OF sub val] sub val show ?thesis
    by simp
qed

end
